theory Spec2Isabelle
  imports Complex_Main
begin

section \<open>Python values, dictionaries and exceptions\<close>

text \<open>
  The client of \<^verbatim>\<open>src/api/ollama_api.py\<close> moves JSON-like Python values around:
  request bodies, parsed response bodies and parsed stream lines. A Python \<^verbatim>\<open>str\<close> is
  kept as the list of its UTF-8 bytes, a \<^verbatim>\<open>dict\<close> as an association list in insertion
  order with string keys.
\<close>

datatype pyval =
    PNone
  | PBool bool
  | PInt int
  | PFloat real
  | PStr string
  | PList "pyval list"
  | PDict "(string \<times> pyval) list"

type_synonym pydict = "(string \<times> pyval) list"

text \<open>Truth value of an object in a condition (\<^verbatim>\<open>if x:\<close>).\<close>

fun truthy :: "pyval \<Rightarrow> bool" where
  "truthy PNone = False"
| "truthy (PBool b) = b"
| "truthy (PInt i) = (i \<noteq> 0)"
| "truthy (PFloat r) = (r \<noteq> 0)"
| "truthy (PStr s) = (s \<noteq> [])"
| "truthy (PList xs) = (xs \<noteq> [])"
| "truthy (PDict d) = (d \<noteq> [])"

fun type_name :: "pyval \<Rightarrow> string" where
  "type_name PNone = ''NoneType''"
| "type_name (PBool b) = ''bool''"
| "type_name (PInt i) = ''int''"
| "type_name (PFloat r) = ''float''"
| "type_name (PStr s) = ''str''"
| "type_name (PList xs) = ''list''"
| "type_name (PDict d) = ''dict''"

text \<open>
  The exception classes that can reach the client. The first six are
  \<^verbatim>\<open>requests.exceptions.RequestException\<close> or subclasses of it
  (\<open>RequestsJSONDecodeError\<close> is \<^verbatim>\<open>requests.exceptions.JSONDecodeError\<close>);
  \<open>JSONDecodeError\<close> is the one of the \<^verbatim>\<open>json\<close> module; \<open>PyException\<close> is the
  plain built-in \<^verbatim>\<open>Exception\<close> the client raises itself.
\<close>

datatype exn_class =
    RequestException
  | ConnectionError
  | HTTPError
  | Timeout
  | ChunkedEncodingError
  | RequestsJSONDecodeError
  | JSONDecodeError
  | UnicodeDecodeError
  | AttributeError
  | TypeError
  | PyException

text \<open>An exception object: its class and what \<^verbatim>\<open>str(e)\<close> gives.\<close>

datatype exn = Exn (class_of: exn_class) (str: string)

fun is_RequestException :: "exn_class \<Rightarrow> bool" where
  "is_RequestException RequestException = True"
| "is_RequestException ConnectionError = True"
| "is_RequestException HTTPError = True"
| "is_RequestException Timeout = True"
| "is_RequestException ChunkedEncodingError = True"
| "is_RequestException RequestsJSONDecodeError = True"
| "is_RequestException JSONDecodeError = False"
| "is_RequestException UnicodeDecodeError = False"
| "is_RequestException AttributeError = False"
| "is_RequestException TypeError = False"
| "is_RequestException PyException = False"

text \<open>\<^verbatim>\<open>d[k] = v\<close>: an existing key keeps its position, a new key goes to the end.\<close>

fun dict_set :: "pydict \<Rightarrow> string \<Rightarrow> pyval \<Rightarrow> pydict" where
  "dict_set [] k v = [(k, v)]"
| "dict_set ((k', v') # d) k v =
     (if k' = k then (k, v) # d else (k', v') # dict_set d k v)"

text \<open>\<^verbatim>\<open>d.update(p)\<close>: the items of \<open>p\<close> are stored one after the other.\<close>

fun dict_update :: "pydict \<Rightarrow> pydict \<Rightarrow> pydict" where
  "dict_update d [] = d"
| "dict_update d ((k, v) # p) = dict_update (dict_set d k v) p"

text \<open>\<^verbatim>\<open>k in d\<close>.\<close>

definition dict_contains :: "pydict \<Rightarrow> string \<Rightarrow> bool" where
  "dict_contains d k = (map_of d k \<noteq> None)"

text \<open>
  \<^verbatim>\<open>x.get(k, default)\<close>. Only a \<^verbatim>\<open>dict\<close> has the method; on any other value the
  attribute lookup raises \<^verbatim>\<open>AttributeError\<close>.
\<close>

definition no_attribute_get :: "pyval \<Rightarrow> exn" where
  "no_attribute_get x =
     Exn AttributeError
       ([CHR 0x27] @ type_name x @ [CHR 0x27] @ '' object has no attribute ''
          @ [CHR 0x27] @ ''get'' @ [CHR 0x27])"

fun py_get :: "pyval \<Rightarrow> string \<Rightarrow> pyval \<Rightarrow> exn + pyval" where
  "py_get (PDict d) k dflt =
     (case map_of d k of None \<Rightarrow> Inr dflt | Some v \<Rightarrow> Inr v)"
| "py_get x k dflt = Inl (no_attribute_get x)"

text \<open>\<^verbatim>\<open>len(x)\<close>, which raises \<^verbatim>\<open>TypeError\<close> on a value without a length.\<close>

definition no_len :: "pyval \<Rightarrow> exn" where
  "no_len x =
     Exn TypeError
       (''object of type '' @ [CHR 0x27] @ type_name x @ [CHR 0x27] @ '' has no len()'')"

fun py_len :: "pyval \<Rightarrow> exn + nat" where
  "py_len (PStr s) = Inr (length s)"
| "py_len (PList xs) = Inr (length xs)"
| "py_len (PDict d) = Inr (length d)"
| "py_len x = Inl (no_len x)"

section \<open>Configuration (\<^verbatim>\<open>src/config.py\<close>)\<close>

text \<open>Decimal digits of a natural number, for \<^verbatim>\<open>f"{OLLAMA_PORT}"\<close>.\<close>

fun str_of_nat :: "nat \<Rightarrow> string" where
  "str_of_nat n =
     (if n < 10 then [''0123456789'' ! n]
      else str_of_nat (n div 10) @ [''0123456789'' ! (n mod 10)])"

declare str_of_nat.simps [simp del]

definition OLLAMA_HOST :: string where
  "OLLAMA_HOST = ''localhost''"

definition OLLAMA_PORT :: nat where
  "OLLAMA_PORT = 11434"

definition OLLAMA_BASE_URL :: string where
  "OLLAMA_BASE_URL = ''http://'' @ OLLAMA_HOST @ '':'' @ str_of_nat OLLAMA_PORT"

definition OLLAMA_API_MODELS :: string where
  "OLLAMA_API_MODELS = OLLAMA_BASE_URL @ ''/api/tags''"

definition OLLAMA_API_GENERATE :: string where
  "OLLAMA_API_GENERATE = OLLAMA_BASE_URL @ ''/api/generate''"

definition OLLAMA_API_CHAT :: string where
  "OLLAMA_API_CHAT = OLLAMA_BASE_URL @ ''/api/chat''"

definition REQUEST_TIMEOUT :: nat where
  "REQUEST_TIMEOUT = 30"

definition MAX_TOKENS :: int where
  "MAX_TOKENS = 2048"

section \<open>The HTTP exchange\<close>

text \<open>
  \<^verbatim>\<open>requests.get\<close> and \<^verbatim>\<open>requests.post\<close> are the client's environment. A call is
  described by the request it sends; the environment answers it either by raising or by
  returning a response object. Of a response the client uses three methods, each given
  here by what it does when called:
  \<^item> \<^verbatim>\<open>raise_for_status()\<close>: returns (\<open>None\<close>) or raises;
  \<^item> \<^verbatim>\<open>json()\<close>: raises or returns the parsed body;
  \<^item> \<^verbatim>\<open>iter_lines()\<close>: delivers lines, then is exhausted (\<open>None\<close>) or raises.
\<close>

datatype http_method = GET | POST

record request =
  http_method :: http_method
  url :: string
  json_body :: "pydict option"
  stream :: bool
  timeout :: nat

record response =
  raise_for_status :: "exn option"
  json :: "exn + pyval"
  iter_lines :: "string list \<times> exn option"

type_synonym http = "request \<Rightarrow> exn + response"

text \<open>\<^verbatim>\<open>json.loads\<close>, applied to one received line: raises or returns the value.\<close>

type_synonym json_loads = "string \<Rightarrow> exn + pyval"

section \<open>The client (\<^verbatim>\<open>src/api/ollama_api.py\<close>)\<close>

record OllamaAPI =
  api_models :: string
  api_generate :: string
  api_chat :: string

text \<open>
  \<^verbatim>\<open>__init__(self, base_url=None)\<close>. The override is taken when \<^verbatim>\<open>base_url\<close> is
  true in a condition: neither \<^verbatim>\<open>None\<close> nor the empty string.
\<close>

definition OllamaAPI_init :: "string option \<Rightarrow> OllamaAPI" where
  "OllamaAPI_init base_url =
     (let self = \<lparr>api_models = OLLAMA_API_MODELS,
                  api_generate = OLLAMA_API_GENERATE,
                  api_chat = OLLAMA_API_CHAT\<rparr>
      in case base_url of
           None \<Rightarrow> self
         | Some b \<Rightarrow>
             if b \<noteq> [] then
               self\<lparr>api_models := b @ ''/api/tags'',
                    api_generate := b @ ''/api/generate'',
                    api_chat := b @ ''/api/chat''\<rparr>
             else self)"

text \<open>
  The messages of the five \<^verbatim>\<open>raise Exception(f"...: {str(e)}")\<close> statements, up to
  the colon and the blank after it, as UTF-8 bytes.
\<close>

definition list_models_failed :: string where
  "list_models_failed =
    [
     CHR 0xD0, CHR 0x9D, CHR 0xD0, CHR 0xB5, CHR 0x20, CHR 0xD1, CHR 0x83, CHR 0xD0, CHR 0xB4, CHR 0xD0,
     CHR 0xB0, CHR 0xD0, CHR 0xBB, CHR 0xD0, CHR 0xBE, CHR 0xD1, CHR 0x81, CHR 0xD1, CHR 0x8C, CHR 0x20,
     CHR 0xD0, CHR 0xBF, CHR 0xD0, CHR 0xBE, CHR 0xD0, CHR 0xBB, CHR 0xD1, CHR 0x83, CHR 0xD1, CHR 0x87,
     CHR 0xD0, CHR 0xB8, CHR 0xD1, CHR 0x82, CHR 0xD1, CHR 0x8C, CHR 0x20, CHR 0xD1, CHR 0x81, CHR 0xD0,
     CHR 0xBF, CHR 0xD0, CHR 0xB8, CHR 0xD1, CHR 0x81, CHR 0xD0, CHR 0xBE, CHR 0xD0, CHR 0xBA, CHR 0x20,
     CHR 0xD0, CHR 0xBC, CHR 0xD0, CHR 0xBE, CHR 0xD0, CHR 0xB4, CHR 0xD0, CHR 0xB5, CHR 0xD0, CHR 0xBB,
     CHR 0xD0, CHR 0xB5, CHR 0xD0, CHR 0xB9, CHR 0x3A, CHR 0x20]"

definition generate_failed :: string where
  "generate_failed =
    [
     CHR 0xD0, CHR 0x9D, CHR 0xD0, CHR 0xB5, CHR 0x20, CHR 0xD1, CHR 0x83, CHR 0xD0, CHR 0xB4, CHR 0xD0,
     CHR 0xB0, CHR 0xD0, CHR 0xBB, CHR 0xD0, CHR 0xBE, CHR 0xD1, CHR 0x81, CHR 0xD1, CHR 0x8C, CHR 0x20,
     CHR 0xD0, CHR 0xBF, CHR 0xD0, CHR 0xBE, CHR 0xD0, CHR 0xBB, CHR 0xD1, CHR 0x83, CHR 0xD1, CHR 0x87,
     CHR 0xD0, CHR 0xB8, CHR 0xD1, CHR 0x82, CHR 0xD1, CHR 0x8C, CHR 0x20, CHR 0xD0, CHR 0xBE, CHR 0xD1,
     CHR 0x82, CHR 0xD0, CHR 0xB2, CHR 0xD0, CHR 0xB5, CHR 0xD1, CHR 0x82, CHR 0x20, CHR 0xD0, CHR 0xBE,
     CHR 0xD1, CHR 0x82, CHR 0x20, CHR 0xD0, CHR 0xBC, CHR 0xD0, CHR 0xBE, CHR 0xD0, CHR 0xB4, CHR 0xD0,
     CHR 0xB5, CHR 0xD0, CHR 0xBB, CHR 0xD0, CHR 0xB8, CHR 0x3A, CHR 0x20]"

definition generate_stream_failed :: string where
  "generate_stream_failed =
    [
     CHR 0xD0, CHR 0x9D, CHR 0xD0, CHR 0xB5, CHR 0x20, CHR 0xD1, CHR 0x83, CHR 0xD0, CHR 0xB4, CHR 0xD0,
     CHR 0xB0, CHR 0xD0, CHR 0xBB, CHR 0xD0, CHR 0xBE, CHR 0xD1, CHR 0x81, CHR 0xD1, CHR 0x8C, CHR 0x20,
     CHR 0xD0, CHR 0xBF, CHR 0xD0, CHR 0xBE, CHR 0xD0, CHR 0xBB, CHR 0xD1, CHR 0x83, CHR 0xD1, CHR 0x87,
     CHR 0xD0, CHR 0xB8, CHR 0xD1, CHR 0x82, CHR 0xD1, CHR 0x8C, CHR 0x20, CHR 0xD0, CHR 0xBF, CHR 0xD0,
     CHR 0xBE, CHR 0xD1, CHR 0x82, CHR 0xD0, CHR 0xBE, CHR 0xD0, CHR 0xBA, CHR 0xD0, CHR 0xBE, CHR 0xD0,
     CHR 0xB2, CHR 0xD1, CHR 0x8B, CHR 0xD0, CHR 0xB9, CHR 0x20, CHR 0xD0, CHR 0xBE, CHR 0xD1, CHR 0x82,
     CHR 0xD0, CHR 0xB2, CHR 0xD0, CHR 0xB5, CHR 0xD1, CHR 0x82, CHR 0x20, CHR 0xD0, CHR 0xBE, CHR 0xD1,
     CHR 0x82, CHR 0x20, CHR 0xD0, CHR 0xBC, CHR 0xD0, CHR 0xBE, CHR 0xD0, CHR 0xB4, CHR 0xD0, CHR 0xB5,
     CHR 0xD0, CHR 0xBB, CHR 0xD0, CHR 0xB8, CHR 0x3A, CHR 0x20]"

definition chat_failed :: string where
  "chat_failed =
    [
     CHR 0xD0, CHR 0x9D, CHR 0xD0, CHR 0xB5, CHR 0x20, CHR 0xD1, CHR 0x83, CHR 0xD0, CHR 0xB4, CHR 0xD0,
     CHR 0xB0, CHR 0xD0, CHR 0xBB, CHR 0xD0, CHR 0xBE, CHR 0xD1, CHR 0x81, CHR 0xD1, CHR 0x8C, CHR 0x20,
     CHR 0xD0, CHR 0xBF, CHR 0xD0, CHR 0xBE, CHR 0xD0, CHR 0xBB, CHR 0xD1, CHR 0x83, CHR 0xD1, CHR 0x87,
     CHR 0xD0, CHR 0xB8, CHR 0xD1, CHR 0x82, CHR 0xD1, CHR 0x8C, CHR 0x20, CHR 0xD0, CHR 0xBE, CHR 0xD1,
     CHR 0x82, CHR 0xD0, CHR 0xB2, CHR 0xD0, CHR 0xB5, CHR 0xD1, CHR 0x82, CHR 0x20, CHR 0xD1, CHR 0x87,
     CHR 0xD0, CHR 0xB0, CHR 0xD1, CHR 0x82, CHR 0xD0, CHR 0xB0, CHR 0x20, CHR 0xD0, CHR 0xBE, CHR 0xD1,
     CHR 0x82, CHR 0x20, CHR 0xD0, CHR 0xBC, CHR 0xD0, CHR 0xBE, CHR 0xD0, CHR 0xB4, CHR 0xD0, CHR 0xB5,
     CHR 0xD0, CHR 0xBB, CHR 0xD0, CHR 0xB8, CHR 0x3A, CHR 0x20]"

definition chat_stream_failed :: string where
  "chat_stream_failed =
    [
     CHR 0xD0, CHR 0x9D, CHR 0xD0, CHR 0xB5, CHR 0x20, CHR 0xD1, CHR 0x83, CHR 0xD0, CHR 0xB4, CHR 0xD0,
     CHR 0xB0, CHR 0xD0, CHR 0xBB, CHR 0xD0, CHR 0xBE, CHR 0xD1, CHR 0x81, CHR 0xD1, CHR 0x8C, CHR 0x20,
     CHR 0xD0, CHR 0xBF, CHR 0xD0, CHR 0xBE, CHR 0xD0, CHR 0xBB, CHR 0xD1, CHR 0x83, CHR 0xD1, CHR 0x87,
     CHR 0xD0, CHR 0xB8, CHR 0xD1, CHR 0x82, CHR 0xD1, CHR 0x8C, CHR 0x20, CHR 0xD0, CHR 0xBF, CHR 0xD0,
     CHR 0xBE, CHR 0xD1, CHR 0x82, CHR 0xD0, CHR 0xBE, CHR 0xD0, CHR 0xBA, CHR 0xD0, CHR 0xBE, CHR 0xD0,
     CHR 0xB2, CHR 0xD1, CHR 0x8B, CHR 0xD0, CHR 0xB9, CHR 0x20, CHR 0xD0, CHR 0xBE, CHR 0xD1, CHR 0x82,
     CHR 0xD0, CHR 0xB2, CHR 0xD0, CHR 0xB5, CHR 0xD1, CHR 0x82, CHR 0x20, CHR 0xD1, CHR 0x87, CHR 0xD0,
     CHR 0xB0, CHR 0xD1, CHR 0x82, CHR 0xD0, CHR 0xB0, CHR 0x20, CHR 0xD0, CHR 0xBE, CHR 0xD1, CHR 0x82,
     CHR 0x20, CHR 0xD0, CHR 0xBC, CHR 0xD0, CHR 0xBE, CHR 0xD0, CHR 0xB4, CHR 0xD0, CHR 0xB5, CHR 0xD0,
     CHR 0xBB, CHR 0xD0, CHR 0xB8, CHR 0x3A, CHR 0x20]"

text \<open>
  The handler every method ends with:
  \<^verbatim>\<open>except requests.exceptions.RequestException as e: raise Exception(f"<msg>: {str(e)}")\<close>.
  An exception of another class is not caught and leaves the method as it is.
\<close>

definition except_RequestException :: "string \<Rightarrow> exn \<Rightarrow> exn" where
  "except_RequestException msg e =
     (if is_RequestException (class_of e) then Exn PyException (msg @ str e) else e)"


text \<open>
  A method that returns a value ends in \<open>Inl e\<close> (the exception \<open>e\<close> leaves the method)
  or in \<open>Inr v\<close>. Every method also hands back \<open>self\<close>, the only object it could modify.
\<close>

definition try_except :: "string \<Rightarrow> exn + 'a \<Rightarrow> exn + 'a" where
  "try_except msg r =
     (case r of Inl e \<Rightarrow> Inl (except_RequestException msg e) | Inr v \<Rightarrow> Inr v)"

subsection \<open>\<^verbatim>\<open>list_models\<close>\<close>

text \<open>\<^verbatim>\<open>requests.get(self.api_models, timeout=REQUEST_TIMEOUT)\<close>.\<close>

definition list_models_request :: "OllamaAPI \<Rightarrow> request" where
  "list_models_request self =
     \<lparr>http_method = GET, url = api_models self, json_body = None,
      stream = False, timeout = REQUEST_TIMEOUT\<rparr>"

definition list_models :: "OllamaAPI \<Rightarrow> http \<Rightarrow> (exn + pyval) \<times> OllamaAPI" where
  "list_models self http =
     (try_except list_models_failed
        (case http (list_models_request self) of
           Inl e \<Rightarrow> Inl e
         | Inr response \<Rightarrow>
             (case raise_for_status response of
                Some e \<Rightarrow> Inl e
              | None \<Rightarrow>
                  (case json response of
                     Inl e \<Rightarrow> Inl e
                   | Inr data \<Rightarrow>
                       (case py_get data ''models'' (PList []) of
                          Inl e \<Rightarrow> Inl e
                        | Inr models \<Rightarrow>
                            (case py_len models of
                               Inl e \<Rightarrow> Inl e
                             | Inr n \<Rightarrow> Inr models))))),
      self)"

subsection \<open>\<^verbatim>\<open>generate\<close>\<close>

text \<open>
  \<^verbatim>\<open>if params: request_data.update(params)\<close>. The condition holds for a dictionary
  with at least one item; \<^verbatim>\<open>None\<close> (the default) and \<^verbatim>\<open>{}\<close> are false.
\<close>

definition update_if_given :: "pydict \<Rightarrow> pydict option \<Rightarrow> pydict" where
  "update_if_given request_data params =
     (case params of
        None \<Rightarrow> request_data
      | Some p \<Rightarrow> if p \<noteq> [] then dict_update request_data p else request_data)"

text \<open>
  \<^verbatim>\<open>if 'max_tokens' not in request_data: request_data['max_tokens'] = MAX_TOKENS\<close>.
\<close>

definition default_max_tokens :: "pydict \<Rightarrow> pydict" where
  "default_max_tokens request_data =
     (if \<not> dict_contains request_data ''max_tokens''
      then dict_set request_data ''max_tokens'' (PInt MAX_TOKENS)
      else request_data)"

text \<open>The dictionary passed as \<^verbatim>\<open>json=request_data\<close> to \<^verbatim>\<open>requests.post\<close>.\<close>

definition generate_request_data :: "string \<Rightarrow> string \<Rightarrow> pydict option \<Rightarrow> pydict" where
  "generate_request_data model prompt params =
     default_max_tokens
       (update_if_given [(''model'', PStr model), (''prompt'', PStr prompt)] params)"

text \<open>
  \<^verbatim>\<open>requests.post(self.api_generate, json=request_data, timeout=REQUEST_TIMEOUT)\<close>.
\<close>

definition generate_request ::
  "OllamaAPI \<Rightarrow> string \<Rightarrow> string \<Rightarrow> pydict option \<Rightarrow> request" where
  "generate_request self model prompt params =
     \<lparr>http_method = POST, url = api_generate self,
      json_body = Some (generate_request_data model prompt params),
      stream = False, timeout = REQUEST_TIMEOUT\<rparr>"

definition generate ::
  "OllamaAPI \<Rightarrow> http \<Rightarrow> string \<Rightarrow> string \<Rightarrow> pydict option \<Rightarrow> (exn + pyval) \<times> OllamaAPI" where
  "generate self http model prompt params =
     (try_except generate_failed
        (case http (generate_request self model prompt params) of
           Inl e \<Rightarrow> Inl e
         | Inr response \<Rightarrow>
             (case raise_for_status response of
                Some e \<Rightarrow> Inl e
              | None \<Rightarrow>
                  (case json response of
                     Inl e \<Rightarrow> Inl e
                   | Inr data \<Rightarrow>
                       (case py_get data ''response'' (PStr []) of
                          Inl e \<Rightarrow> Inl e
                        | Inr generated_text \<Rightarrow>
                            (case py_len generated_text of
                               Inl e \<Rightarrow> Inl e
                             | Inr n \<Rightarrow> Inr generated_text))))),
      self)"

subsection \<open>\<^verbatim>\<open>generate_stream\<close>\<close>

text \<open>
  A generator is described by what its consumer gets when it iterates to the end: the
  elements yielded, in order, and how the iteration ends, by exhaustion (\<open>None\<close>) or by
  an exception (\<open>Some e\<close>).
\<close>

type_synonym 'a generator = "'a list \<times> exn option"

definition yield :: "'a \<Rightarrow> 'a generator \<Rightarrow> 'a generator" where
  "yield x g = (x # fst g, snd g)"

definition generate_stream_request_data ::
  "string \<Rightarrow> string \<Rightarrow> pydict option \<Rightarrow> pydict" where
  "generate_stream_request_data model prompt params =
     default_max_tokens
       (update_if_given
          [(''model'', PStr model), (''prompt'', PStr prompt), (''stream'', PBool True)]
          params)"

text \<open>
  The loop \<^verbatim>\<open>for line in response.iter_lines():\<close>, run over the lines that are still
  to come; \<open>fin\<close> is how \<^verbatim>\<open>iter_lines\<close> ends after them.
\<close>

fun generate_stream_loop :: "json_loads \<Rightarrow> string list \<Rightarrow> exn option \<Rightarrow> pyval generator" where
  "generate_stream_loop loads [] fin = ([], fin)"
| "generate_stream_loop loads (line # rest) fin =
     (if line \<noteq> [] then
        (case loads line of
           Inl e \<Rightarrow> ([], Some e)
         | Inr line_data \<Rightarrow>
             (case py_get line_data ''response'' (PStr []) of
                Inl e \<Rightarrow> ([], Some e)
              | Inr token \<Rightarrow>
                  (case py_get line_data ''done'' (PBool False) of
                     Inl e \<Rightarrow> ([], Some e)
                   | Inr finished \<Rightarrow>
                       if truthy finished then ([], None)
                       else yield token (generate_stream_loop loads rest fin))))
      else generate_stream_loop loads rest fin)"

text \<open>
  \<^verbatim>\<open>requests.post(self.api_generate, json=request_data, stream=True, timeout=REQUEST_TIMEOUT)\<close>.
\<close>

definition generate_stream_request ::
  "OllamaAPI \<Rightarrow> string \<Rightarrow> string \<Rightarrow> pydict option \<Rightarrow> request" where
  "generate_stream_request self model prompt params =
     \<lparr>http_method = POST, url = api_generate self,
      json_body = Some (generate_stream_request_data model prompt params),
      stream = True, timeout = REQUEST_TIMEOUT\<rparr>"

definition generate_stream ::
  "OllamaAPI \<Rightarrow> http \<Rightarrow> json_loads \<Rightarrow> string \<Rightarrow> string \<Rightarrow> pydict option
     \<Rightarrow> pyval generator \<times> OllamaAPI" where
  "generate_stream self http loads model prompt params =
     (let g = (case http (generate_stream_request self model prompt params) of
                 Inl e \<Rightarrow> ([], Some e)
               | Inr response \<Rightarrow>
                   (case raise_for_status response of
                      Some e \<Rightarrow> ([], Some e)
                    | None \<Rightarrow>
                        generate_stream_loop loads
                          (fst (iter_lines response)) (snd (iter_lines response))))
      in ((fst g, map_option (except_RequestException generate_stream_failed) (snd g)), self))"

subsection \<open>\<^verbatim>\<open>chat\<close>\<close>

definition chat_request_data :: "string \<Rightarrow> pydict list \<Rightarrow> pydict option \<Rightarrow> pydict" where
  "chat_request_data model messages params =
     update_if_given
       [(''model'', PStr model), (''messages'', PList (map PDict messages))] params"

definition chat_request ::
  "OllamaAPI \<Rightarrow> string \<Rightarrow> pydict list \<Rightarrow> pydict option \<Rightarrow> request" where
  "chat_request self model messages params =
     \<lparr>http_method = POST, url = api_chat self,
      json_body = Some (chat_request_data model messages params),
      stream = False, timeout = REQUEST_TIMEOUT\<rparr>"

definition chat ::
  "OllamaAPI \<Rightarrow> http \<Rightarrow> string \<Rightarrow> pydict list \<Rightarrow> pydict option \<Rightarrow> (exn + pyval) \<times> OllamaAPI" where
  "chat self http model messages params =
     (try_except chat_failed
        (case http (chat_request self model messages params) of
           Inl e \<Rightarrow> Inl e
         | Inr response \<Rightarrow>
             (case raise_for_status response of
                Some e \<Rightarrow> Inl e
              | None \<Rightarrow>
                  (case json response of
                     Inl e \<Rightarrow> Inl e
                   | Inr data \<Rightarrow> Inr data))),
      self)"

subsection \<open>\<^verbatim>\<open>chat_stream\<close>\<close>

definition chat_stream_request_data :: "string \<Rightarrow> pydict list \<Rightarrow> pydict option \<Rightarrow> pydict" where
  "chat_stream_request_data model messages params =
     update_if_given
       [(''model'', PStr model), (''messages'', PList (map PDict messages)),
        (''stream'', PBool True)]
       params"

fun chat_stream_loop :: "json_loads \<Rightarrow> string list \<Rightarrow> exn option \<Rightarrow> pyval generator" where
  "chat_stream_loop loads [] fin = ([], fin)"
| "chat_stream_loop loads (line # rest) fin =
     (if line \<noteq> [] then
        (case loads line of
           Inl e \<Rightarrow> ([], Some e)
         | Inr line_data \<Rightarrow>
             yield line_data
               (case py_get line_data ''done'' (PBool False) of
                  Inl e \<Rightarrow> ([], Some e)
                | Inr finished \<Rightarrow>
                    if truthy finished then ([], None)
                    else chat_stream_loop loads rest fin))
      else chat_stream_loop loads rest fin)"

definition chat_stream_request ::
  "OllamaAPI \<Rightarrow> string \<Rightarrow> pydict list \<Rightarrow> pydict option \<Rightarrow> request" where
  "chat_stream_request self model messages params =
     \<lparr>http_method = POST, url = api_chat self,
      json_body = Some (chat_stream_request_data model messages params),
      stream = True, timeout = REQUEST_TIMEOUT\<rparr>"

definition chat_stream ::
  "OllamaAPI \<Rightarrow> http \<Rightarrow> json_loads \<Rightarrow> string \<Rightarrow> pydict list \<Rightarrow> pydict option
     \<Rightarrow> pyval generator \<times> OllamaAPI" where
  "chat_stream self http loads model messages params =
     (let g = (case http (chat_stream_request self model messages params) of
                 Inl e \<Rightarrow> ([], Some e)
               | Inr response \<Rightarrow>
                   (case raise_for_status response of
                      Some e \<Rightarrow> ([], Some e)
                    | None \<Rightarrow>
                        chat_stream_loop loads
                          (fst (iter_lines response)) (snd (iter_lines response))))
      in ((fst g, map_option (except_RequestException chat_stream_failed) (snd g)), self))"

section \<open>Notions used to state the properties\<close>

text \<open>A Python dictionary has each key once.\<close>

definition well_formed :: "pydict option \<Rightarrow> bool" where
  "well_formed params = (case params of None \<Rightarrow> True | Some p \<Rightarrow> distinct (map fst p))"

text \<open>The value the caller's options give to a key, if any.\<close>

definition option_value :: "pydict option \<Rightarrow> string \<Rightarrow> pyval option" where
  "option_value params k = (case params of None \<Rightarrow> None | Some p \<Rightarrow> map_of p k)"

text \<open>The value the body of a request has under a key, if any.\<close>

definition transmitted :: "request \<Rightarrow> string \<Rightarrow> pyval option" where
  "transmitted req k = (case json_body req of None \<Rightarrow> None | Some body \<Rightarrow> map_of body k)"

text \<open>The \<^verbatim>\<open>done\<close> flag of a parsed object, absent meaning false.\<close>

definition done_flag :: "pydict \<Rightarrow> bool" where
  "done_flag d = truthy (case map_of d ''done'' of None \<Rightarrow> PBool False | Some v \<Rightarrow> v)"

text \<open>
  A line that parses to an object carrying the text fragment \<open>F\<close> with a false
  \<^verbatim>\<open>done\<close> flag; a line that parses to the object \<open>d\<close> with a false flag; a non-blank
  line that parses to an object with a true flag.
\<close>

definition fragment_line :: "json_loads \<Rightarrow> string \<Rightarrow> pyval \<Rightarrow> bool" where
  "fragment_line loads line F =
     (case loads line of
        Inl e \<Rightarrow> False
      | Inr v \<Rightarrow> (case v of
                   PDict d \<Rightarrow> map_of d ''response'' = Some F \<and> \<not> done_flag d
                 | _ \<Rightarrow> False))"

definition open_line :: "json_loads \<Rightarrow> string \<Rightarrow> pydict \<Rightarrow> bool" where
  "open_line loads line d = (loads line = Inr (PDict d) \<and> \<not> done_flag d)"

definition done_line :: "json_loads \<Rightarrow> string \<Rightarrow> bool" where
  "done_line loads line =
     (line \<noteq> [] \<and>
      (case loads line of
         Inl e \<Rightarrow> False
       | Inr v \<Rightarrow> (case v of PDict d \<Rightarrow> done_flag d | _ \<Rightarrow> False)))"

text \<open>The lines of a stream that are not blank.\<close>

definition non_blank :: "string list \<Rightarrow> string list" where
  "non_blank lines = filter (\<lambda>line. line \<noteq> []) lines"

text \<open>
  The exchange fails in transport with the text \<open>msg\<close>: the connection is not
  established, or the status check of the response raises.
\<close>

definition transport_failure :: "http \<Rightarrow> request \<Rightarrow> string \<Rightarrow> bool" where
  "transport_failure http req msg =
     (case http req of
        Inl e \<Rightarrow> e = Exn ConnectionError msg
      | Inr response \<Rightarrow> raise_for_status response = Some (Exn HTTPError msg))"

text \<open>
  The exchange raises \<open>e\<close> before any of the body is read: in the call itself, or in
  the status check of the response.
\<close>

definition exchange_raises :: "http \<Rightarrow> request \<Rightarrow> exn \<Rightarrow> bool" where
  "exchange_raises http req e =
     (case http req of
        Inl e' \<Rightarrow> e' = e
      | Inr response \<Rightarrow> raise_for_status response = Some e)"

text \<open>The class of the exception a call ends with, if it ends with one.\<close>

definition raised :: "exn + 'a \<Rightarrow> exn_class option" where
  "raised r = (case r of Inl e \<Rightarrow> Some (class_of e) | Inr v \<Rightarrow> None)"

section \<open>Example environments\<close>

text \<open>A server that answers every request with the same response, and one that never answers.\<close>

definition serve :: "response \<Rightarrow> http" where
  "serve response = (\<lambda>req. Inr response)"

definition refuse :: "exn \<Rightarrow> http" where
  "refuse e = (\<lambda>req. Inl e)"

definition quoted :: "string \<Rightarrow> string" where
  "quoted s = [CHR 0x22] @ s @ [CHR 0x22]"

text \<open>
  The three lines of the streaming scenario of the specification, the line of an object
  without fields, and a line of no JSON.
\<close>

definition line_Hel :: string where
  "line_Hel = ''{'' @ quoted ''response'' @ '':'' @ quoted ''Hel'' @ '',''
                @ quoted ''done'' @ '':false}''"

definition line_lo :: string where
  "line_lo = ''{'' @ quoted ''response'' @ '':'' @ quoted ''lo'' @ '',''
               @ quoted ''done'' @ '':false}''"

definition line_done :: string where
  "line_done = ''{'' @ quoted ''response'' @ '':'' @ quoted [] @ '',''
                 @ quoted ''done'' @ '':true}''"

definition line_bare :: string where
  "line_bare = ''{}''"

definition line_garbage :: string where
  "line_garbage = ''<html>''"

text \<open>The objects these lines stand for, and \<^verbatim>\<open>json.loads\<close> on the lines.\<close>

definition obj_Hel :: pydict where
  "obj_Hel = [(''response'', PStr ''Hel''), (''done'', PBool False)]"

definition obj_lo :: pydict where
  "obj_lo = [(''response'', PStr ''lo''), (''done'', PBool False)]"

definition obj_done :: pydict where
  "obj_done = [(''response'', PStr []), (''done'', PBool True)]"

definition example_loads :: json_loads where
  "example_loads line =
     (if line = line_Hel then Inr (PDict obj_Hel)
      else if line = line_lo then Inr (PDict obj_lo)
      else if line = line_done then Inr (PDict obj_done)
      else if line = line_bare then Inr (PDict [])
      else Inl (Exn JSONDecodeError ''Expecting value: line 1 column 1 (char 0)''))"

text \<open>A successful response with the given lines, and one with the given body.\<close>

definition streaming :: "string list \<Rightarrow> response" where
  "streaming lines =
     \<lparr>raise_for_status = None,
      json = Inl (Exn RequestsJSONDecodeError ''Extra data''),
      iter_lines = (lines, None)\<rparr>"

definition answering :: "exn + pyval \<Rightarrow> response" where
  "answering body = \<lparr>raise_for_status = None, json = body, iter_lines = ([], None)\<rparr>"

text \<open>A successful response whose lines end with an exception raised by \<^verbatim>\<open>iter_lines\<close>.\<close>

definition breaking :: "string list \<Rightarrow> exn \<Rightarrow> response" where
  "breaking lines e =
     \<lparr>raise_for_status = None,
      json = Inl (Exn RequestsJSONDecodeError ''Extra data''),
      iter_lines = (lines, Some e)\<rparr>"

text \<open>A response whose status check raises.\<close>

definition failing :: "string \<Rightarrow> response" where
  "failing msg =
     \<lparr>raise_for_status = Some (Exn HTTPError msg),
      json = Inl (Exn RequestsJSONDecodeError ''Expecting value''),
      iter_lines = ([], None)\<rparr>"

section \<open>Dictionaries\<close>

lemma map_of_dict_set: "map_of (dict_set d k v) x = (if x = k then Some v else map_of d x)"
  by (induction d) auto

lemma map_of_dict_update:
  "map_of (dict_update d p) x =
     (case map_of (rev p) x of None \<Rightarrow> map_of d x | Some v \<Rightarrow> Some v)"
proof (induction p arbitrary: d)
  case Nil
  show ?case by simp
next
  case (Cons kv p)
  obtain k v where kv: "kv = (k, v)" by (cases kv)
  show ?case unfolding kv
    by (simp add: Cons.IH map_of_dict_set map_add_def split: option.splits)
qed

lemma map_of_rev_distinct: "distinct (map fst p) \<Longrightarrow> map_of (rev p) = map_of p"
  by (simp add: map_of_inject_set distinct_rev rev_map[symmetric])

lemma map_of_update_if_given:
  assumes "well_formed params"
  shows "map_of (update_if_given d params) k =
           (case option_value params k of None \<Rightarrow> map_of d k | Some v \<Rightarrow> Some v)"
proof (cases params)
  case None
  then show ?thesis by (simp add: update_if_given_def option_value_def)
next
  case (Some p)
  with assms have "map_of (rev p) = map_of p"
    by (simp add: well_formed_def map_of_rev_distinct)
  with Some show ?thesis
    by (simp add: update_if_given_def option_value_def map_of_dict_update)
qed

lemma map_of_default_max_tokens:
  "map_of (default_max_tokens d) k =
     (if k = ''max_tokens'' \<and> map_of d k = None then Some (PInt MAX_TOKENS) else map_of d k)"
  by (auto simp add: default_max_tokens_def dict_contains_def map_of_dict_set)

section \<open>Request bodies\<close>

text \<open>
  C3. The body that \<^verbatim>\<open>generate\<close> and \<^verbatim>\<open>generate_stream\<close> transmit has the
  process-wide default \<^verbatim>\<open>MAX_TOKENS\<close> under \<^verbatim>\<open>max_tokens\<close> when the caller's
  options have no such key, and the caller's value, unchanged, when they have one.
\<close>

theorem max_tokens_defaulting:
  assumes "well_formed params"
  shows "transmitted (generate_request self model prompt params) ''max_tokens'' =
           (case option_value params ''max_tokens'' of
              None \<Rightarrow> Some (PInt MAX_TOKENS) | Some v \<Rightarrow> Some v)
       \<and> transmitted (generate_stream_request self model prompt params) ''max_tokens'' =
           (case option_value params ''max_tokens'' of
              None \<Rightarrow> Some (PInt MAX_TOKENS) | Some v \<Rightarrow> Some v)"
  using assms
  by (simp add: transmitted_def generate_request_def generate_stream_request_def
        generate_request_data_def generate_stream_request_data_def
        map_of_default_max_tokens map_of_update_if_given split: option.splits)

theorem max_tokens_defaulting_witness:
  "well_formed None
   \<and> well_formed (Some [(''temperature'', PInt 1), (''max_tokens'', PInt 64)])
   \<and> transmitted (generate_request (OllamaAPI_init None) ''qwen3'' ''hi'' None) ''max_tokens''
       = Some (PInt 2048)
   \<and> transmitted (generate_stream_request (OllamaAPI_init None) ''qwen3'' ''hi''
         (Some [(''temperature'', PInt 1), (''max_tokens'', PInt 64)])) ''max_tokens''
       = Some (PInt 64)"
  using max_tokens_defaulting [of None "OllamaAPI_init None" "''qwen3''" "''hi''"]
    max_tokens_defaulting [of "Some [(''temperature'', PInt 1), (''max_tokens'', PInt 64)]"
      "OllamaAPI_init None" "''qwen3''" "''hi''"]
  by (simp add: well_formed_def option_value_def MAX_TOKENS_def)

text \<open>
  C4, as stated: a chat call without a \<^verbatim>\<open>max_tokens\<close> option would transmit the
  default ceiling. It does not: neither \<^verbatim>\<open>chat\<close> nor \<^verbatim>\<open>chat_stream\<close> has
  the defaulting step of \<^verbatim>\<open>generate\<close>, and a call without options transmits a body
  without the key.
\<close>

theorem chat_max_tokens_not_injected:
  "transmitted (chat_request (OllamaAPI_init None) ''qwen3''
       [[(''role'', PStr ''user''), (''content'', PStr ''hi'')]] None) ''max_tokens''
     \<noteq> Some (PInt MAX_TOKENS)
   \<and> transmitted (chat_stream_request (OllamaAPI_init None) ''qwen3''
       [[(''role'', PStr ''user''), (''content'', PStr ''hi'')]] None) ''max_tokens''
     \<noteq> Some (PInt MAX_TOKENS)"
  by (simp add: transmitted_def chat_request_def chat_stream_request_def
        chat_request_data_def chat_stream_request_data_def update_if_given_def)

text \<open>
  C4, amended: the body that \<^verbatim>\<open>chat\<close> and \<^verbatim>\<open>chat_stream\<close> transmit is
  \<^verbatim>\<open>model\<close> and \<^verbatim>\<open>messages\<close> (and \<^verbatim>\<open>stream\<close>, true, for
  \<^verbatim>\<open>chat_stream\<close>), overridden and extended by the caller's options, and nothing
  else: every key of the options has the options' value, a base field that the options do
  not name has its own value, and any other key is absent. No default ceiling is added:
  \<^verbatim>\<open>max_tokens\<close> is in the body exactly when the options have it, with the caller's
  value.
\<close>

theorem chat_body:
  assumes "well_formed params"
  shows "transmitted (chat_request self model messages params) k =
           (case option_value params k of
              Some v \<Rightarrow> Some v
            | None \<Rightarrow>
                if k = ''model'' then Some (PStr model)
                else if k = ''messages'' then Some (PList (map PDict messages))
                else None)
       \<and> transmitted (chat_stream_request self model messages params) k =
           (case option_value params k of
              Some v \<Rightarrow> Some v
            | None \<Rightarrow>
                if k = ''model'' then Some (PStr model)
                else if k = ''messages'' then Some (PList (map PDict messages))
                else if k = ''stream'' then Some (PBool True)
                else None)"
  using assms
  by (simp add: transmitted_def chat_request_def chat_stream_request_def
        chat_request_data_def chat_stream_request_data_def
        map_of_update_if_given split: option.splits)

theorem chat_body_witness:
  "well_formed None
   \<and> well_formed (Some [(''max_tokens'', PInt 64)])
   \<and> transmitted (chat_request (OllamaAPI_init None) ''qwen3''
         [[(''role'', PStr ''user''), (''content'', PStr ''hi'')]] None) ''max_tokens'' = None
   \<and> transmitted (chat_request (OllamaAPI_init None) ''qwen3''
         [[(''role'', PStr ''user''), (''content'', PStr ''hi'')]] None) ''messages''
       = Some (PList [PDict [(''role'', PStr ''user''), (''content'', PStr ''hi'')]])
   \<and> transmitted (chat_stream_request (OllamaAPI_init None) ''qwen3''
         [[(''role'', PStr ''user''), (''content'', PStr ''hi'')]]
         (Some [(''max_tokens'', PInt 64)])) ''max_tokens'' = Some (PInt 64)
   \<and> transmitted (chat_stream_request (OllamaAPI_init None) ''qwen3''
         [[(''role'', PStr ''user''), (''content'', PStr ''hi'')]]
         (Some [(''max_tokens'', PInt 64)])) ''stream'' = Some (PBool True)
   \<and> transmitted (chat_stream_request (OllamaAPI_init None) ''qwen3''
         [[(''role'', PStr ''user''), (''content'', PStr ''hi'')]]
         (Some [(''max_tokens'', PInt 64)])) ''model'' = Some (PStr ''qwen3'')"
  using chat_body [of None "OllamaAPI_init None" "''qwen3''"
      "[[(''role'', PStr ''user''), (''content'', PStr ''hi'')]]" "''max_tokens''"]
    chat_body [of None "OllamaAPI_init None" "''qwen3''"
      "[[(''role'', PStr ''user''), (''content'', PStr ''hi'')]]" "''messages''"]
    chat_body [of "Some [(''max_tokens'', PInt 64)]" "OllamaAPI_init None"
      "''qwen3''" "[[(''role'', PStr ''user''), (''content'', PStr ''hi'')]]" "''max_tokens''"]
    chat_body [of "Some [(''max_tokens'', PInt 64)]" "OllamaAPI_init None"
      "''qwen3''" "[[(''role'', PStr ''user''), (''content'', PStr ''hi'')]]" "''stream''"]
    chat_body [of "Some [(''max_tokens'', PInt 64)]" "OllamaAPI_init None"
      "''qwen3''" "[[(''role'', PStr ''user''), (''content'', PStr ''hi'')]]" "''model''"]
  by (simp add: well_formed_def option_value_def)

text \<open>
  C10. The options are merged into the body after the base fields are set: a key of the
  options, \<^verbatim>\<open>model\<close>, \<^verbatim>\<open>prompt\<close>, \<^verbatim>\<open>messages\<close> and \<^verbatim>\<open>stream\<close>
  included, is transmitted with the value the options give it, in all four operations that
  send a body.
\<close>

theorem options_override:
  assumes "well_formed params" and "option_value params k = Some v"
  shows "transmitted (generate_request self model prompt params) k = Some v
       \<and> transmitted (generate_stream_request self model prompt params) k = Some v
       \<and> transmitted (chat_request self model messages params) k = Some v
       \<and> transmitted (chat_stream_request self model messages params) k = Some v"
  using assms
  by (simp add: transmitted_def generate_request_def generate_stream_request_def
        chat_request_def chat_stream_request_def
        generate_request_data_def generate_stream_request_data_def
        chat_request_data_def chat_stream_request_data_def
        map_of_default_max_tokens map_of_update_if_given)

theorem options_override_witness:
  "well_formed (Some [(''stream'', PBool False), (''model'', PStr ''other'')])
   \<and> option_value (Some [(''stream'', PBool False), (''model'', PStr ''other'')]) ''stream''
       = Some (PBool False)
   \<and> transmitted (generate_stream_request (OllamaAPI_init None) ''qwen3'' ''hi''
         (Some [(''stream'', PBool False), (''model'', PStr ''other'')])) ''stream''
       = Some (PBool False)
   \<and> transmitted (chat_stream_request (OllamaAPI_init None) ''qwen3'' []
         (Some [(''stream'', PBool False), (''model'', PStr ''other'')])) ''stream''
       = Some (PBool False)"
  using options_override [of "Some [(''stream'', PBool False), (''model'', PStr ''other'')]"
      "''stream''" "PBool False" "OllamaAPI_init None" "''qwen3''" "''hi''" "[]"]
  by (simp add: well_formed_def option_value_def)

section \<open>Streams\<close>

lemma fragment_lineD:
  assumes "fragment_line loads line F"
  obtains d where "loads line = Inr (PDict d)" "map_of d ''response'' = Some F" "\<not> done_flag d"
  using assms unfolding fragment_line_def
  by (auto split: sum.splits pyval.splits)

lemma done_lineD:
  assumes "done_line loads line"
  obtains d where "line \<noteq> []" "loads line = Inr (PDict d)" "done_flag d"
  using assms unfolding done_line_def
  by (auto split: sum.splits pyval.splits)

lemma generate_stream_loop_fragment:
  assumes "line \<noteq> []" and "fragment_line loads line F"
  shows "generate_stream_loop loads (line # rest) fin =
           yield F (generate_stream_loop loads rest fin)"
proof -
  from assms(2) obtain d where "loads line = Inr (PDict d)"
    "map_of d ''response'' = Some F" "\<not> done_flag d"
    by (rule fragment_lineD)
  with assms(1) show ?thesis
    by (simp add: done_flag_def split: option.splits)
qed

lemma generate_stream_loop_done:
  assumes "done_line loads line"
  shows "generate_stream_loop loads (line # rest) fin = ([], None)"
proof -
  from assms obtain d where "line \<noteq> []" "loads line = Inr (PDict d)" "done_flag d"
    by (rule done_lineD)
  then show ?thesis
    by (simp add: done_flag_def split: option.splits)
qed

lemma generate_stream_loop_prefix:
  assumes "list_all2 (fragment_line loads) (non_blank pre) fs"
  shows "generate_stream_loop loads (pre @ later) fin =
           (fs @ fst (generate_stream_loop loads later fin),
            snd (generate_stream_loop loads later fin))"
  using assms
proof (induction pre arbitrary: fs)
  case Nil
  then show ?case by (simp add: non_blank_def)
next
  case (Cons line pre)
  show ?case
  proof (cases "line = []")
    case True
    with Cons.prems have "list_all2 (fragment_line loads) (non_blank pre) fs"
      by (simp add: non_blank_def)
    from Cons.IH [OF this] True show ?thesis by simp
  next
    case False
    with Cons.prems obtain F fs' where fs: "fs = F # fs'"
      and F: "fragment_line loads line F"
      and rest: "list_all2 (fragment_line loads) (non_blank pre) fs'"
      by (auto simp add: non_blank_def list_all2_Cons1)
    have "generate_stream_loop loads ((line # pre) @ later) fin =
            yield F (generate_stream_loop loads (pre @ later) fin)"
      using generate_stream_loop_fragment [OF False F] by simp
    with Cons.IH [OF rest] fs show ?thesis by (simp add: yield_def)
  qed
qed

text \<open>
  C1. When the lines of the response are, blank lines apart, objects carrying the fragments
  \<open>F1, ..., Fn\<close> with a false \<^verbatim>\<open>done\<close> flag, followed by an object with a true
  flag, \<^verbatim>\<open>generate_stream\<close> yields exactly \<open>F1, ..., Fn\<close> in that order and is
  then exhausted: nothing for a blank line, nothing for the final object, nothing for
  whatever the stream holds after it.
\<close>

theorem generate_stream_yields_fragments:
  assumes "http (generate_stream_request self model prompt params) = Inr response"
    and "raise_for_status response = None"
    and "fst (iter_lines response) = pre @ dl # rest"
    and "list_all2 (fragment_line loads) (non_blank pre) fs"
    and "done_line loads dl"
  shows "fst (generate_stream self http loads model prompt params) = (fs, None)"
proof -
  have "generate_stream_loop loads (pre @ dl # rest) (snd (iter_lines response)) = (fs, None)"
    using generate_stream_loop_prefix [OF assms(4)] generate_stream_loop_done [OF assms(5)]
    by simp
  with assms(1,2,3) show ?thesis
    by (simp add: generate_stream_def)
qed

lemma example_lines_distinct:
  "line_Hel \<noteq> line_lo" "line_Hel \<noteq> line_done" "line_lo \<noteq> line_done"
  "line_garbage \<noteq> line_Hel" "line_garbage \<noteq> line_lo" "line_garbage \<noteq> line_done"
  "line_lo \<noteq> line_Hel" "line_done \<noteq> line_Hel" "line_done \<noteq> line_lo"
  "line_Hel \<noteq> []" "line_lo \<noteq> []" "line_done \<noteq> []" "line_garbage \<noteq> []"
  "line_bare \<noteq> line_Hel" "line_bare \<noteq> line_lo" "line_bare \<noteq> line_done"
  "line_garbage \<noteq> line_bare" "line_bare \<noteq> []"
  by (simp_all add: line_Hel_def line_lo_def line_done_def line_garbage_def line_bare_def
        quoted_def)

theorem generate_stream_yields_fragments_witness:
  "serve (streaming [line_Hel, [], line_lo, line_done, line_garbage])
       (generate_stream_request (OllamaAPI_init None) ''qwen3'' ''hi'' None)
     = Inr (streaming [line_Hel, [], line_lo, line_done, line_garbage])
   \<and> raise_for_status (streaming [line_Hel, [], line_lo, line_done, line_garbage]) = None
   \<and> fst (iter_lines (streaming [line_Hel, [], line_lo, line_done, line_garbage]))
       = [line_Hel, [], line_lo] @ line_done # [line_garbage]
   \<and> list_all2 (fragment_line example_loads) (non_blank [line_Hel, [], line_lo])
       [PStr ''Hel'', PStr ''lo'']
   \<and> done_line example_loads line_done
   \<and> fst (generate_stream (OllamaAPI_init None)
          (serve (streaming [line_Hel, [], line_lo, line_done, line_garbage]))
          example_loads ''qwen3'' ''hi'' None)
       = ([PStr ''Hel'', PStr ''lo''], None)"
proof -
  have h1: "serve (streaming [line_Hel, [], line_lo, line_done, line_garbage])
       (generate_stream_request (OllamaAPI_init None) ''qwen3'' ''hi'' None)
     = Inr (streaming [line_Hel, [], line_lo, line_done, line_garbage])"
    by (simp add: serve_def)
  have h2: "raise_for_status (streaming [line_Hel, [], line_lo, line_done, line_garbage]) = None"
    by (simp add: streaming_def)
  have h3: "fst (iter_lines (streaming [line_Hel, [], line_lo, line_done, line_garbage]))
       = [line_Hel, [], line_lo] @ line_done # [line_garbage]"
    by (simp add: streaming_def)
  have h4: "list_all2 (fragment_line example_loads) (non_blank [line_Hel, [], line_lo])
       [PStr ''Hel'', PStr ''lo'']"
    by (simp add: non_blank_def fragment_line_def example_loads_def done_flag_def
          obj_Hel_def obj_lo_def example_lines_distinct)
  have h5: "done_line example_loads line_done"
    by (simp add: done_line_def example_loads_def done_flag_def obj_done_def
          example_lines_distinct)
  from generate_stream_yields_fragments
      [where http = "serve (streaming [line_Hel, [], line_lo, line_done, line_garbage])"
         and self = "OllamaAPI_init None" and model = "''qwen3''" and prompt = "''hi''"
         and params = None, OF h1 h2 h3 h4 h5] h1 h2 h3 h4 h5
  show ?thesis by simp
qed

lemma chat_stream_loop_open_line:
  assumes "line \<noteq> []" and "open_line loads line d"
  shows "chat_stream_loop loads (line # rest) fin =
           yield (PDict d) (chat_stream_loop loads rest fin)"
  using assms
  by (simp add: open_line_def done_flag_def split: option.splits)

lemma chat_stream_loop_done:
  assumes "line \<noteq> []" and "loads line = Inr (PDict d)" and "done_flag d"
  shows "chat_stream_loop loads (line # rest) fin = ([PDict d], None)"
  using assms
  by (simp add: done_flag_def yield_def split: option.splits)

lemma chat_stream_loop_prefix:
  assumes "list_all2 (open_line loads) (non_blank pre) ds"
  shows "chat_stream_loop loads (pre @ later) fin =
           (map PDict ds @ fst (chat_stream_loop loads later fin),
            snd (chat_stream_loop loads later fin))"
  using assms
proof (induction pre arbitrary: ds)
  case Nil
  then show ?case by (simp add: non_blank_def)
next
  case (Cons line pre)
  show ?case
  proof (cases "line = []")
    case True
    with Cons.prems have "list_all2 (open_line loads) (non_blank pre) ds"
      by (simp add: non_blank_def)
    from Cons.IH [OF this] True show ?thesis by simp
  next
    case False
    with Cons.prems obtain d ds' where ds: "ds = d # ds'"
      and d: "open_line loads line d"
      and rest: "list_all2 (open_line loads) (non_blank pre) ds'"
      by (auto simp add: non_blank_def list_all2_Cons1)
    have "chat_stream_loop loads ((line # pre) @ later) fin =
            yield (PDict d) (chat_stream_loop loads (pre @ later) fin)"
      using chat_stream_loop_open_line [OF False d] by simp
    with Cons.IH [OF rest] ds show ?thesis by (simp add: yield_def)
  qed
qed

text \<open>
  C2. \<^verbatim>\<open>chat_stream\<close> yields the parsed object of each non-blank line, as it is and in
  arrival order. The object with a true \<^verbatim>\<open>done\<close> flag is yielded too, and is the last
  element, whatever the stream holds after it; a stream that holds no such object is
  yielded to its end.
\<close>

theorem chat_stream_yields_objects:
  assumes "http (chat_stream_request self model messages params) = Inr response"
    and "raise_for_status response = None"
    and "list_all2 (open_line loads) (non_blank pre) ds"
  shows "(fst (iter_lines response) = pre @ dl # rest \<and> dl \<noteq> []
            \<and> loads dl = Inr (PDict d) \<and> done_flag d
          \<longrightarrow> fst (chat_stream self http loads model messages params)
                = (map PDict ds @ [PDict d], None))
       \<and> (iter_lines response = (pre, None)
          \<longrightarrow> fst (chat_stream self http loads model messages params) = (map PDict ds, None))"
proof (intro conjI impI)
  assume a: "fst (iter_lines response) = pre @ dl # rest \<and> dl \<noteq> []
               \<and> loads dl = Inr (PDict d) \<and> done_flag d"
  then have "chat_stream_loop loads (pre @ dl # rest) (snd (iter_lines response))
               = (map PDict ds @ [PDict d], None)"
    using chat_stream_loop_prefix [OF assms(3)] chat_stream_loop_done [of dl loads d]
    by simp
  with a assms(1,2)
  show "fst (chat_stream self http loads model messages params)
          = (map PDict ds @ [PDict d], None)"
    by (simp add: chat_stream_def)
next
  assume b: "iter_lines response = (pre, None)"
  have "chat_stream_loop loads (pre @ []) None = (map PDict ds, None)"
    using chat_stream_loop_prefix [OF assms(3), of "[]" None] by simp
  with b assms(1,2)
  show "fst (chat_stream self http loads model messages params) = (map PDict ds, None)"
    by (simp add: chat_stream_def)
qed


theorem chat_stream_yields_objects_witness:
  "list_all2 (open_line example_loads) (non_blank [line_Hel, [], line_lo]) [obj_Hel, obj_lo]
   \<and> line_done \<noteq> [] \<and> example_loads line_done = Inr (PDict obj_done) \<and> done_flag obj_done
   \<and> fst (chat_stream (OllamaAPI_init None)
          (serve (streaming ([line_Hel, [], line_lo] @ line_done # [line_garbage])))
          example_loads ''qwen3'' [] None)
       = ([PDict obj_Hel, PDict obj_lo, PDict obj_done], None)
   \<and> fst (chat_stream (OllamaAPI_init None)
          (serve (streaming [line_Hel, [], line_lo]))
          example_loads ''qwen3'' [] None)
       = ([PDict obj_Hel, PDict obj_lo], None)"
proof -
  have h: "list_all2 (open_line example_loads) (non_blank [line_Hel, [], line_lo])
             [obj_Hel, obj_lo]"
    by (simp add: non_blank_def open_line_def example_loads_def done_flag_def
          obj_Hel_def obj_lo_def example_lines_distinct)
  have d: "line_done \<noteq> [] \<and> example_loads line_done = Inr (PDict obj_done)
             \<and> done_flag obj_done"
    by (simp add: example_loads_def done_flag_def obj_done_def example_lines_distinct)
  have "fst (chat_stream (OllamaAPI_init None)
          (serve (streaming ([line_Hel, [], line_lo] @ line_done # [line_garbage])))
          example_loads ''qwen3'' [] None)
       = (map PDict [obj_Hel, obj_lo] @ [PDict obj_done], None)"
    using chat_stream_yields_objects
      [where http = "serve (streaming ([line_Hel, [], line_lo] @ line_done # [line_garbage]))"
         and response = "streaming ([line_Hel, [], line_lo] @ line_done # [line_garbage])"
         and self = "OllamaAPI_init None" and model = "''qwen3''" and messages = "[]"
         and params = None and loads = example_loads
         and pre = "[line_Hel, [], line_lo]" and ds = "[obj_Hel, obj_lo]"
         and dl = line_done and rest = "[line_garbage]" and d = obj_done] h d
    by (simp add: serve_def streaming_def)
  moreover have "fst (chat_stream (OllamaAPI_init None)
          (serve (streaming [line_Hel, [], line_lo]))
          example_loads ''qwen3'' [] None)
       = (map PDict [obj_Hel, obj_lo], None)"
    using chat_stream_yields_objects
      [where http = "serve (streaming [line_Hel, [], line_lo])"
         and response = "streaming [line_Hel, [], line_lo]"
         and self = "OllamaAPI_init None" and model = "''qwen3''" and messages = "[]"
         and params = None and loads = example_loads
         and pre = "[line_Hel, [], line_lo]" and ds = "[obj_Hel, obj_lo]"] h
    by (simp add: serve_def streaming_def)
  ultimately show ?thesis using h d by simp
qed

section \<open>Failures\<close>

text \<open>
  C5. When the connection cannot be established, or the status check of the response
  raises for a non-success status, each of the five operations fails with an exception
  whose message is the operation's fixed text followed by the text of the transport
  error.
\<close>

theorem transport_failure_message:
  "(transport_failure http (list_models_request self) msg
      \<longrightarrow> fst (list_models self http) = Inl (Exn PyException (list_models_failed @ msg)))
   \<and> (transport_failure http (generate_request self model prompt params) msg
      \<longrightarrow> fst (generate self http model prompt params)
            = Inl (Exn PyException (generate_failed @ msg)))
   \<and> (transport_failure http (generate_stream_request self model prompt params) msg
      \<longrightarrow> fst (generate_stream self http loads model prompt params)
            = ([], Some (Exn PyException (generate_stream_failed @ msg))))
   \<and> (transport_failure http (chat_request self model messages params) msg
      \<longrightarrow> fst (chat self http model messages params)
            = Inl (Exn PyException (chat_failed @ msg)))
   \<and> (transport_failure http (chat_stream_request self model messages params) msg
      \<longrightarrow> fst (chat_stream self http loads model messages params)
            = ([], Some (Exn PyException (chat_stream_failed @ msg))))"
  by (auto simp add: transport_failure_def list_models_def generate_def generate_stream_def
        chat_def chat_stream_def try_except_def except_RequestException_def
        split: sum.splits)

theorem transport_failure_message_witness:
  "transport_failure (refuse (Exn ConnectionError ''Connection refused''))
       (list_models_request (OllamaAPI_init None)) ''Connection refused''
   \<and> fst (list_models (OllamaAPI_init None) (refuse (Exn ConnectionError ''Connection refused'')))
       = Inl (Exn PyException (list_models_failed @ ''Connection refused''))
   \<and> transport_failure (serve (failing ''500 Server Error''))
       (chat_request (OllamaAPI_init None) ''qwen3'' [] None) ''500 Server Error''
   \<and> fst (chat (OllamaAPI_init None) (serve (failing ''500 Server Error'')) ''qwen3'' [] None)
       = Inl (Exn PyException (chat_failed @ ''500 Server Error''))"
proof -
  have h1: "transport_failure (refuse (Exn ConnectionError ''Connection refused''))
       (list_models_request (OllamaAPI_init None)) ''Connection refused''"
    by (simp add: transport_failure_def refuse_def)
  have h2: "transport_failure (serve (failing ''500 Server Error''))
       (chat_request (OllamaAPI_init None) ''qwen3'' [] None) ''500 Server Error''"
    by (simp add: transport_failure_def serve_def failing_def)
  from h1 h2
    transport_failure_message
      [where http = "refuse (Exn ConnectionError ''Connection refused'')"
         and self = "OllamaAPI_init None" and msg = "''Connection refused''"]
    transport_failure_message
      [where http = "serve (failing ''500 Server Error'')"
         and self = "OllamaAPI_init None" and msg = "''500 Server Error''"
         and model = "''qwen3''" and messages = "[]" and params = None]
  show ?thesis by blast
qed

text \<open>
  C6, as stated: a request that exceeds the time bound would fail with a condition of its
  own, distinct from the one of a connection failure. It does not: the handler catches
  \<^verbatim>\<open>RequestException\<close>, of which \<^verbatim>\<open>Timeout\<close> is a subclass, and raises the
  same plain \<^verbatim>\<open>Exception\<close> for both.
\<close>

theorem timeout_not_distinct:
  "raised (fst (list_models (OllamaAPI_init None) (refuse (Exn Timeout ''Read timed out.''))))
     = raised (fst (list_models (OllamaAPI_init None)
                      (refuse (Exn ConnectionError ''Connection refused''))))
   \<and> raised (fst (list_models (OllamaAPI_init None) (refuse (Exn Timeout ''Read timed out.''))))
     = Some PyException"
  by (simp add: raised_def list_models_def refuse_def try_except_def
        except_RequestException_def)

text \<open>
  C6, amended: whatever the class of the \<^verbatim>\<open>RequestException\<close> that the exchange
  raises (a timeout, a refused connection, the error of the status check for a non-success
  status, a failure while the lines of a stream are read), the operation fails with the
  plain \<^verbatim>\<open>Exception\<close> whose message is the operation's fixed text followed by the text
  of that exception; a stream fails so after the elements of the lines already read.
\<close>

theorem request_exceptions_wrapped:
  assumes "is_RequestException c"
  shows "(exchange_raises http (list_models_request self) (Exn c msg)
            \<longrightarrow> fst (list_models self http) = Inl (Exn PyException (list_models_failed @ msg)))
       \<and> (exchange_raises http (generate_request self model prompt params) (Exn c msg)
            \<longrightarrow> fst (generate self http model prompt params)
                  = Inl (Exn PyException (generate_failed @ msg)))
       \<and> (exchange_raises http (generate_stream_request self model prompt params) (Exn c msg)
            \<longrightarrow> fst (generate_stream self http loads model prompt params)
                  = ([], Some (Exn PyException (generate_stream_failed @ msg))))
       \<and> (exchange_raises http (chat_request self model messages params) (Exn c msg)
            \<longrightarrow> fst (chat self http model messages params)
                  = Inl (Exn PyException (chat_failed @ msg)))
       \<and> (exchange_raises http (chat_stream_request self model messages params) (Exn c msg)
            \<longrightarrow> fst (chat_stream self http loads model messages params)
                  = ([], Some (Exn PyException (chat_stream_failed @ msg))))
       \<and> (http (generate_stream_request self model prompt params) = Inr response
            \<and> raise_for_status response = None
            \<and> iter_lines response = (pre, Some (Exn c msg))
            \<and> list_all2 (fragment_line loads) (non_blank pre) fs
            \<longrightarrow> fst (generate_stream self http loads model prompt params)
                  = (fs, Some (Exn PyException (generate_stream_failed @ msg))))
       \<and> (http (chat_stream_request self model messages params) = Inr response
            \<and> raise_for_status response = None
            \<and> iter_lines response = (pre, Some (Exn c msg))
            \<and> list_all2 (open_line loads) (non_blank pre) ds
            \<longrightarrow> fst (chat_stream self http loads model messages params)
                  = (map PDict ds, Some (Exn PyException (chat_stream_failed @ msg))))"
proof (intro conjI impI)
  assume "exchange_raises http (list_models_request self) (Exn c msg)"
  with assms show "fst (list_models self http)
      = Inl (Exn PyException (list_models_failed @ msg))"
    by (auto simp add: exchange_raises_def list_models_def try_except_def
          except_RequestException_def split: sum.splits)
next
  assume "exchange_raises http (generate_request self model prompt params) (Exn c msg)"
  with assms show "fst (generate self http model prompt params)
      = Inl (Exn PyException (generate_failed @ msg))"
    by (auto simp add: exchange_raises_def generate_def try_except_def
          except_RequestException_def split: sum.splits)
next
  assume "exchange_raises http (generate_stream_request self model prompt params) (Exn c msg)"
  with assms show "fst (generate_stream self http loads model prompt params)
      = ([], Some (Exn PyException (generate_stream_failed @ msg)))"
    by (auto simp add: exchange_raises_def generate_stream_def
          except_RequestException_def split: sum.splits)
next
  assume "exchange_raises http (chat_request self model messages params) (Exn c msg)"
  with assms show "fst (chat self http model messages params)
      = Inl (Exn PyException (chat_failed @ msg))"
    by (auto simp add: exchange_raises_def chat_def try_except_def
          except_RequestException_def split: sum.splits)
next
  assume "exchange_raises http (chat_stream_request self model messages params) (Exn c msg)"
  with assms show "fst (chat_stream self http loads model messages params)
      = ([], Some (Exn PyException (chat_stream_failed @ msg)))"
    by (auto simp add: exchange_raises_def chat_stream_def
          except_RequestException_def split: sum.splits)
next
  assume a: "http (generate_stream_request self model prompt params) = Inr response
            \<and> raise_for_status response = None
            \<and> iter_lines response = (pre, Some (Exn c msg))
            \<and> list_all2 (fragment_line loads) (non_blank pre) fs"
  then have "generate_stream_loop loads (pre @ []) (Some (Exn c msg)) = (fs, Some (Exn c msg))"
    using generate_stream_loop_prefix [of loads pre fs "[]" "Some (Exn c msg)"] by simp
  with a assms show "fst (generate_stream self http loads model prompt params)
      = (fs, Some (Exn PyException (generate_stream_failed @ msg)))"
    by (simp add: generate_stream_def except_RequestException_def)
next
  assume a: "http (chat_stream_request self model messages params) = Inr response
            \<and> raise_for_status response = None
            \<and> iter_lines response = (pre, Some (Exn c msg))
            \<and> list_all2 (open_line loads) (non_blank pre) ds"
  then have "chat_stream_loop loads (pre @ []) (Some (Exn c msg))
               = (map PDict ds, Some (Exn c msg))"
    using chat_stream_loop_prefix [of loads pre ds "[]" "Some (Exn c msg)"] by simp
  with a assms show "fst (chat_stream self http loads model messages params)
      = (map PDict ds, Some (Exn PyException (chat_stream_failed @ msg)))"
    by (simp add: chat_stream_def except_RequestException_def)
qed

theorem request_exceptions_wrapped_witness:
  "is_RequestException Timeout \<and> is_RequestException HTTPError
   \<and> is_RequestException ChunkedEncodingError
   \<and> exchange_raises (refuse (Exn Timeout ''Read timed out.''))
        (generate_request (OllamaAPI_init None) ''qwen3'' ''hi'' None)
        (Exn Timeout ''Read timed out.'')
   \<and> fst (generate (OllamaAPI_init None) (refuse (Exn Timeout ''Read timed out.''))
          ''qwen3'' ''hi'' None)
       = Inl (Exn PyException (generate_failed @ ''Read timed out.''))
   \<and> exchange_raises (serve (failing ''500 Server Error''))
        (list_models_request (OllamaAPI_init None)) (Exn HTTPError ''500 Server Error'')
   \<and> fst (list_models (OllamaAPI_init None) (serve (failing ''500 Server Error'')))
       = Inl (Exn PyException (list_models_failed @ ''500 Server Error''))
   \<and> list_all2 (fragment_line example_loads) (non_blank [line_Hel, []]) [PStr ''Hel'']
   \<and> fst (generate_stream (OllamaAPI_init None)
          (serve (breaking [line_Hel, []] (Exn ChunkedEncodingError ''Connection broken'')))
          example_loads ''qwen3'' ''hi'' None)
       = ([PStr ''Hel''],
          Some (Exn PyException (generate_stream_failed @ ''Connection broken'')))"
proof -
  have c1: "is_RequestException Timeout" by simp
  have c2: "is_RequestException HTTPError" by simp
  have c3: "is_RequestException ChunkedEncodingError" by simp
  have h1: "exchange_raises (refuse (Exn Timeout ''Read timed out.''))
        (generate_request (OllamaAPI_init None) ''qwen3'' ''hi'' None)
        (Exn Timeout ''Read timed out.'')"
    by (simp add: exchange_raises_def refuse_def)
  have h2: "exchange_raises (serve (failing ''500 Server Error''))
        (list_models_request (OllamaAPI_init None)) (Exn HTTPError ''500 Server Error'')"
    by (simp add: exchange_raises_def serve_def failing_def)
  have h3: "list_all2 (fragment_line example_loads) (non_blank [line_Hel, []]) [PStr ''Hel'']"
    by (simp add: non_blank_def fragment_line_def example_loads_def done_flag_def
          obj_Hel_def example_lines_distinct)
  have r1: "fst (generate (OllamaAPI_init None) (refuse (Exn Timeout ''Read timed out.''))
          ''qwen3'' ''hi'' None)
       = Inl (Exn PyException (generate_failed @ ''Read timed out.''))"
    using h1 request_exceptions_wrapped
      [where c = Timeout and http = "refuse (Exn Timeout ''Read timed out.'')"
         and self = "OllamaAPI_init None" and msg = "''Read timed out.''"
         and model = "''qwen3''" and prompt = "''hi''" and params = None, OF c1]
    by blast
  have r2: "fst (list_models (OllamaAPI_init None) (serve (failing ''500 Server Error'')))
       = Inl (Exn PyException (list_models_failed @ ''500 Server Error''))"
    using h2 request_exceptions_wrapped
      [where c = HTTPError and http = "serve (failing ''500 Server Error'')"
         and self = "OllamaAPI_init None" and msg = "''500 Server Error''", OF c2]
    by blast
  have r3: "fst (generate_stream (OllamaAPI_init None)
          (serve (breaking [line_Hel, []] (Exn ChunkedEncodingError ''Connection broken'')))
          example_loads ''qwen3'' ''hi'' None)
       = ([PStr ''Hel''],
          Some (Exn PyException (generate_stream_failed @ ''Connection broken'')))"
    using h3 request_exceptions_wrapped
      [where c = ChunkedEncodingError
         and http = "serve (breaking [line_Hel, []]
                       (Exn ChunkedEncodingError ''Connection broken''))"
         and response = "breaking [line_Hel, []]
                           (Exn ChunkedEncodingError ''Connection broken'')"
         and self = "OllamaAPI_init None" and msg = "''Connection broken''"
         and model = "''qwen3''" and prompt = "''hi''" and params = None
         and loads = example_loads and pre = "[line_Hel, []]" and fs = "[PStr ''Hel'']",
       OF c3]
    by (simp add: serve_def breaking_def)
  from c1 c2 c3 h1 h2 h3 r1 r2 r3 show ?thesis by simp
qed




section \<open>The state of the client\<close>

text \<open>
  C8. The client holds the three endpoint addresses and nothing else. The constructor
  sets them from the configuration, or, when a non-empty base address is given, to that
  address followed by \<^verbatim>\<open>/api/tags\<close>, \<^verbatim>\<open>/api/generate\<close> and \<^verbatim>\<open>/api/chat\<close>;
  each of the five operations hands the client back as it received it.
\<close>

theorem endpoints_fixed:
  "OllamaAPI_init None =
     \<lparr>api_models = OLLAMA_API_MODELS, api_generate = OLLAMA_API_GENERATE,
      api_chat = OLLAMA_API_CHAT\<rparr>
   \<and> OllamaAPI_init (Some []) = OllamaAPI_init None
   \<and> (b \<noteq> [] \<longrightarrow>
        OllamaAPI_init (Some b) =
          \<lparr>api_models = b @ ''/api/tags'', api_generate = b @ ''/api/generate'',
           api_chat = b @ ''/api/chat''\<rparr>)
   \<and> snd (list_models self http) = self
   \<and> snd (generate self http model prompt params) = self
   \<and> snd (generate_stream self http loads model prompt params) = self
   \<and> snd (chat self http model messages params) = self
   \<and> snd (chat_stream self http loads model messages params) = self"
  by (simp add: OllamaAPI_init_def list_models_def generate_def generate_stream_def
        chat_def chat_stream_def Let_def)

lemma default_endpoints:
  "OLLAMA_API_MODELS = ''http://localhost:11434/api/tags''"
  "OLLAMA_API_GENERATE = ''http://localhost:11434/api/generate''"
  "OLLAMA_API_CHAT = ''http://localhost:11434/api/chat''"
  by (simp_all add: OLLAMA_API_MODELS_def OLLAMA_API_GENERATE_def OLLAMA_API_CHAT_def
        OLLAMA_BASE_URL_def OLLAMA_HOST_def OLLAMA_PORT_def str_of_nat.simps)

theorem endpoints_fixed_witness:
  "''http://10.0.0.5:11434'' \<noteq> []
   \<and> OllamaAPI_init None =
       \<lparr>api_models = ''http://localhost:11434/api/tags'',
        api_generate = ''http://localhost:11434/api/generate'',
        api_chat = ''http://localhost:11434/api/chat''\<rparr>
   \<and> OllamaAPI_init (Some ''http://10.0.0.5:11434'') =
       \<lparr>api_models = ''http://10.0.0.5:11434/api/tags'',
        api_generate = ''http://10.0.0.5:11434/api/generate'',
        api_chat = ''http://10.0.0.5:11434/api/chat''\<rparr>
   \<and> snd (generate_stream (OllamaAPI_init (Some ''http://10.0.0.5:11434''))
          (serve (streaming [line_Hel, line_done])) example_loads ''qwen3'' ''hi'' None)
       = OllamaAPI_init (Some ''http://10.0.0.5:11434'')"
  using endpoints_fixed [where b = "''http://10.0.0.5:11434''"]
    endpoints_fixed [where self = "OllamaAPI_init (Some ''http://10.0.0.5:11434'')"
      and http = "serve (streaming [line_Hel, line_done])" and loads = example_loads
      and model = "''qwen3''" and prompt = "''hi''" and params = None]
  by (simp add: default_endpoints)

section \<open>Absent fields\<close>

text \<open>
  C9. When the parsed body is an object without the expected field, the operation returns
  a default and does not fail: \<^verbatim>\<open>list_models\<close> the empty list without
  \<^verbatim>\<open>models\<close>, \<^verbatim>\<open>generate\<close> the empty string without \<^verbatim>\<open>response\<close>; and a
  line of \<^verbatim>\<open>generate_stream\<close> without \<^verbatim>\<open>response\<close> (and with a false
  \<^verbatim>\<open>done\<close> flag) yields the empty string as its element.
\<close>

theorem missing_field_defaults:
  assumes "raise_for_status response = None"
  shows "(http (list_models_request self) = Inr response
            \<and> json response = Inr (PDict d) \<and> map_of d ''models'' = None
            \<longrightarrow> fst (list_models self http) = Inr (PList []))
       \<and> (http (generate_request self model prompt params) = Inr response
            \<and> json response = Inr (PDict d) \<and> map_of d ''response'' = None
            \<longrightarrow> fst (generate self http model prompt params) = Inr (PStr []))
       \<and> (http (generate_stream_request self model prompt params) = Inr response
            \<and> fst (iter_lines response) = pre @ line # rest
            \<and> list_all2 (fragment_line loads) (non_blank pre) fs
            \<and> line \<noteq> [] \<and> loads line = Inr (PDict d)
            \<and> map_of d ''response'' = None \<and> \<not> done_flag d
            \<longrightarrow> fst (fst (generate_stream self http loads model prompt params))
                  = fs @ PStr [] #
                      fst (generate_stream_loop loads rest (snd (iter_lines response))))"
proof (intro conjI impI)
  assume "http (list_models_request self) = Inr response
            \<and> json response = Inr (PDict d) \<and> map_of d ''models'' = None"
  with assms show "fst (list_models self http) = Inr (PList [])"
    by (simp add: list_models_def try_except_def)
next
  assume "http (generate_request self model prompt params) = Inr response
            \<and> json response = Inr (PDict d) \<and> map_of d ''response'' = None"
  with assms show "fst (generate self http model prompt params) = Inr (PStr [])"
    by (simp add: generate_def try_except_def)
next
  assume a: "http (generate_stream_request self model prompt params) = Inr response
            \<and> fst (iter_lines response) = pre @ line # rest
            \<and> list_all2 (fragment_line loads) (non_blank pre) fs
            \<and> line \<noteq> [] \<and> loads line = Inr (PDict d)
            \<and> map_of d ''response'' = None \<and> \<not> done_flag d"
  then have "generate_stream_loop loads (line # rest) (snd (iter_lines response))
               = yield (PStr []) (generate_stream_loop loads rest (snd (iter_lines response)))"
    by (simp add: done_flag_def split: option.splits)
  with a have "fst (generate_stream_loop loads (pre @ line # rest) (snd (iter_lines response)))
               = fs @ PStr [] #
                   fst (generate_stream_loop loads rest (snd (iter_lines response)))"
    using generate_stream_loop_prefix [of loads pre fs "line # rest"]
    by (simp add: yield_def)
  with a assms
  show "fst (fst (generate_stream self http loads model prompt params))
          = fs @ PStr [] # fst (generate_stream_loop loads rest (snd (iter_lines response)))"
    by (simp add: generate_stream_def)
qed


theorem missing_field_defaults_witness:
  "raise_for_status (answering (Inr (PDict []))) = None
   \<and> json (answering (Inr (PDict []))) = Inr (PDict [])
   \<and> fst (list_models (OllamaAPI_init None) (serve (answering (Inr (PDict [])))))
       = Inr (PList [])
   \<and> fst (generate (OllamaAPI_init None) (serve (answering (Inr (PDict []))))
          ''qwen3'' ''hi'' None)
       = Inr (PStr [])
   \<and> raise_for_status (streaming ([line_Hel] @ line_bare # [line_done])) = None
   \<and> list_all2 (fragment_line example_loads) (non_blank [line_Hel]) [PStr ''Hel'']
   \<and> line_bare \<noteq> [] \<and> example_loads line_bare = Inr (PDict [])
   \<and> \<not> done_flag []
   \<and> fst (fst (generate_stream (OllamaAPI_init None)
          (serve (streaming ([line_Hel] @ line_bare # [line_done])))
          example_loads ''qwen3'' ''hi'' None))
       = [PStr ''Hel'', PStr []]"
proof -
  have a1: "raise_for_status (answering (Inr (PDict []))) = None"
    by (simp add: answering_def)
  have a2: "json (answering (Inr (PDict []))) = Inr (PDict [])"
    by (simp add: answering_def)
  have b1: "raise_for_status (streaming ([line_Hel] @ line_bare # [line_done])) = None"
    by (simp add: streaming_def)
  have b2: "list_all2 (fragment_line example_loads) (non_blank [line_Hel]) [PStr ''Hel'']"
    by (simp add: non_blank_def fragment_line_def example_loads_def done_flag_def
          obj_Hel_def example_lines_distinct)
  have b3: "line_bare \<noteq> [] \<and> example_loads line_bare = Inr (PDict [])"
    by (simp add: example_loads_def example_lines_distinct)
  have b4: "\<not> done_flag []"
    by (simp add: done_flag_def)
  have b5: "generate_stream_loop example_loads [line_done] None = ([], None)"
    by (simp add: example_loads_def done_flag_def obj_done_def example_lines_distinct)
  have "fst (list_models (OllamaAPI_init None) (serve (answering (Inr (PDict [])))))
          = Inr (PList [])
        \<and> fst (generate (OllamaAPI_init None) (serve (answering (Inr (PDict []))))
              ''qwen3'' ''hi'' None)
          = Inr (PStr [])"
    using missing_field_defaults
      [where response = "answering (Inr (PDict []))"
         and http = "serve (answering (Inr (PDict [])))"
         and self = "OllamaAPI_init None" and model = "''qwen3''" and prompt = "''hi''"
         and params = None and d = "[]", OF a1] a2
    by (simp add: serve_def)
  moreover have "fst (fst (generate_stream (OllamaAPI_init None)
          (serve (streaming ([line_Hel] @ line_bare # [line_done])))
          example_loads ''qwen3'' ''hi'' None))
       = [PStr ''Hel'', PStr []]"
    using missing_field_defaults
      [where response = "streaming ([line_Hel] @ line_bare # [line_done])"
         and http = "serve (streaming ([line_Hel] @ line_bare # [line_done]))"
         and self = "OllamaAPI_init None" and model = "''qwen3''" and prompt = "''hi''"
         and params = None and loads = example_loads
         and pre = "[line_Hel]" and line = line_bare and rest = "[line_done]"
         and fs = "[PStr ''Hel'']" and d = "[]", OF b1] b2 b3 b4 b5
    by (simp add: serve_def streaming_def)
  ultimately show ?thesis
    using a1 a2 b1 b2 b3 b4 by simp
qed

end
